theory Spec2Isabelle
  imports Complex_Main "HOL-Library.Multiset"
begin

section \<open>JavaScript values used by the score card\<close>

text \<open>
  The program is \<^verbatim>\<open>src/app.js\<close>. The file holds three successive revisions of the
  application one after the other; the development follows the last one (from the
  line \<^verbatim>\<open>const STORAGE_KEY\<close> at 1396 to the end), which is the one with input
  validation, and names the line ranges it translates.

  A JavaScript string is a sequence of UTF-16 code units, modelled as a list of
  natural numbers. ASCII literals are written \<open>u ''...''\<close>; the few
  pictographs of the labels are written by their code units.
\<close>

type_synonym jsstring = "nat list"

abbreviation (input) u :: "string \<Rightarrow> jsstring" where
  "u s \<equiv> map of_char s"

text \<open>
  A value read back by \<^verbatim>\<open>JSON.parse\<close>. Numbers are the rationals their text
  denotes (the rounding to a double is not modelled); an object is the list of its
  members in textual order.
\<close>

datatype json =
    JNull
  | JBool bool
  | JNum rat
  | JStr jsstring
  | JArr "json list"
  | JObj "(jsstring \<times> json) list"

text \<open>Truthiness, as tested by \<^verbatim>\<open>if (v)\<close>, \<^verbatim>\<open>!v\<close> and \<^verbatim>\<open>v && ...\<close>.\<close>

fun truthy :: "json \<Rightarrow> bool" where
  "truthy JNull = False"
| "truthy (JBool b) = b"
| "truthy (JNum r) = (r \<noteq> 0)"
| "truthy (JStr s) = (s \<noteq> [])"
| "truthy (JArr xs) = True"
| "truthy (JObj kvs) = True"

text \<open>\<^verbatim>\<open>Number.isInteger\<close> on a number.\<close>

definition isInteger :: "rat \<Rightarrow> bool" where
  "isInteger r = (frac r = 0)"

text \<open>
  The decimal text of an integer, as a template literal \<^verbatim>\<open>`${n}`\<close> prints it
  (for the magnitudes below \<open>10^21\<close>, where JavaScript does not switch to the
  exponent notation).
\<close>

fun digitsOf :: "nat \<Rightarrow> jsstring" where
  "digitsOf n = (if n < 10 then [48 + n] else digitsOf (n div 10) @ [48 + n mod 10])"

declare digitsOf.simps [simp del]

definition showInt :: "int \<Rightarrow> jsstring" where
  "showInt i = (if i < 0 then 45 # digitsOf (nat (- i)) else digitsOf (nat i))"

section \<open>Configuration and course data (lines 1396-1425)\<close>

definition HOLES_COUNT :: nat where
  "HOLES_COUNT = 18"

definition MAX_PLAYERS :: nat where
  "MAX_PLAYERS = 6"

definition courseNames :: "(jsstring \<times> jsstring) list" where
  "courseNames =
     [(u ''dragon'', [55357, 56329] @ u '' Dragon Slayer''),
      (u ''knight'', [9876, 65039] @ u '' Knight's Challenge'')]"

definition coursePars :: "(jsstring \<times> int list) list" where
  "coursePars =
     [(u ''dragon'', [2, 3, 2, 3, 2, 3, 2, 3, 2, 3, 2, 3, 2, 3, 2, 3, 2, 4]),
      (u ''knight'', [2, 3, 2, 3, 2, 3, 2, 3, 2, 3, 2, 3, 2, 3, 2, 3, 2, 4])]"

text \<open>
  A value used as a property key (\<^verbatim>\<open>coursePars[c]\<close>, \<^verbatim>\<open>hasOwnProperty(c)\<close>) is
  first converted to a string. A string is its own key, and an array of one element
  converts like that element. Every other conversion (of a number, a boolean,
  \<^verbatim>\<open>null\<close>, an object, an empty or a longer array) raises or gives a text that is
  no key of the two course tables: \<open>None\<close>.
\<close>

fun propertyKey :: "json \<Rightarrow> jsstring option" where
  "propertyKey (JStr s) = Some s"
| "propertyKey (JArr [x]) = propertyKey x"
| "propertyKey _ = None"

definition hasOwnProperty :: "(jsstring \<times> 'a) list \<Rightarrow> json \<Rightarrow> bool" where
  "hasOwnProperty table c =
     (case propertyKey c of None \<Rightarrow> False | Some k \<Rightarrow> map_of table k \<noteq> None)"

text \<open>\<^verbatim>\<open>isValidCourse\<close> (lines 2272-2274).\<close>

definition isValidCourse :: "json \<Rightarrow> bool" where
  "isValidCourse course =
     (truthy course \<and> hasOwnProperty courseNames course \<and> hasOwnProperty coursePars course)"

text \<open>
  \<^verbatim>\<open>coursePars[c]\<close>, read only after \<open>isValidCourse c\<close>; the empty list stands
  for \<^verbatim>\<open>undefined\<close>.
\<close>

definition parsOf :: "json \<Rightarrow> int list" where
  "parsOf c =
     (case propertyKey c of
        None \<Rightarrow> []
      | Some k \<Rightarrow> (case map_of coursePars k of None \<Rightarrow> [] | Some ps \<Rightarrow> ps))"

text \<open>\<^verbatim>\<open>isValidScore\<close> (lines 2281-2283); \<^verbatim>\<open>Number.isInteger\<close> is false of every
  value that is not a number.\<close>

definition isValidScore :: "json \<Rightarrow> bool" where
  "isValidScore strokes =
     (case strokes of JNum r \<Rightarrow> isInteger r \<and> 1 \<le> r \<and> r \<le> 11 | _ \<Rightarrow> False)"

section \<open>Game state (lines 1430-1434)\<close>

text \<open>
  A slot of a score array holds \<^verbatim>\<open>null\<close> or a stroke count. \<open>Empty\<close> is a slot
  that was never written (a hole of a sparse array, which reads as
  \<^verbatim>\<open>undefined\<close>): it appears only when an assignment lands beyond the end of the
  array.
\<close>

datatype slot = Empty | Null | Strokes int

record player =
  name :: jsstring
  scores :: "slot list"
  total :: int

text \<open>
  The string kept in \<^verbatim>\<open>localStorage\<close> under \<open>STORAGE_KEY\<close>: the empty string, a
  text that \<^verbatim>\<open>JSON.parse\<close> rejects, or the JSON text of a value. \<^verbatim>\<open>JSON.stringify\<close>
  and \<^verbatim>\<open>JSON.parse\<close> are taken as inverse on such values, and the store as always
  available (no quota or access failure).
\<close>

datatype item = EmptyText | Malformed | Text json

text \<open>
  The global variables, the storage entry, and the four class flags of the page that
  tell which screen is shown (\<open>modalActive\<close> is the score card dialog, opened by
  \<^verbatim>\<open>showScorecards\<close>). \<open>gameStarted\<close> is \<open>None\<close> for \<^verbatim>\<open>undefined\<close>. The history
  stack and the rest of the page are not modelled.
\<close>

record world =
  currentCourse :: json
  players :: "player list"
  currentHole :: rat
  gameStarted :: "json option"
  storage :: "item option"
  setupHidden :: bool
  holeActive :: bool
  summaryActive :: bool
  modalActive :: bool

datatype rejection =
    Toast jsstring
  | NotANumber
  | InvalidPlayerIndex
  | InvalidScore
  | InvalidCourse

text \<open>
  Reading and writing \<^verbatim>\<open>scores[h]\<close>. An index is a non-negative integer; a read
  elsewhere gives \<^verbatim>\<open>undefined\<close>, a write beyond the end extends the array, and a
  write at a key that is no index leaves the elements as they are.
\<close>

definition isIndex :: "rat \<Rightarrow> bool" where
  "isIndex h = (isInteger h \<and> 0 \<le> h)"

definition slotAt :: "slot list \<Rightarrow> rat \<Rightarrow> slot" where
  "slotAt xs h = (if isIndex h \<and> nat \<lfloor>h\<rfloor> < length xs then xs ! nat \<lfloor>h\<rfloor> else Empty)"

definition setSlot :: "slot list \<Rightarrow> rat \<Rightarrow> slot \<Rightarrow> slot list" where
  "setSlot xs h v =
     (if \<not> isIndex h then xs
      else if nat \<lfloor>h\<rfloor> < length xs then xs[nat \<lfloor>h\<rfloor> := v]
      else xs @ replicate (nat \<lfloor>h\<rfloor> - length xs) Empty @ [v])"

text \<open>\<^verbatim>\<open>scores.filter(s => s !== null).reduce((sum, s) => sum + s, 0)\<close>; both
  \<^verbatim>\<open>filter\<close> and \<^verbatim>\<open>reduce\<close> skip the empty slots.\<close>

fun strokesIn :: "slot list \<Rightarrow> int list" where
  "strokesIn [] = []"
| "strokesIn (Strokes n # xs) = n # strokesIn xs"
| "strokesIn (_ # xs) = strokesIn xs"

definition totalOf :: "slot list \<Rightarrow> int" where
  "totalOf xs = foldl (\<lambda>sum s. sum + s) 0 (strokesIn xs)"

text \<open>\<^verbatim>\<open>isValidPlayerIndex\<close> (lines 2290-2292).\<close>

definition isValidPlayerIndex :: "world \<Rightarrow> rat \<Rightarrow> bool" where
  "isValidPlayerIndex w idx = (isInteger idx \<and> 0 \<le> idx \<and> idx < of_nat (length (players w)))"

text \<open>
  \<^verbatim>\<open>parseInt(value, 10)\<close> on the text of a form control: leading white space and
  one sign are skipped, the longest run of decimal digits is read, and no digit at
  all gives \<^verbatim>\<open>NaN\<close> (\<open>None\<close>).
\<close>

definition isWhiteSpace :: "nat \<Rightarrow> bool" where
  "isWhiteSpace c =
     (c \<in> {9, 10, 11, 12, 13, 32, 160, 5760, 8232, 8233, 8239, 8287, 12288, 65279}
      \<or> (8192 \<le> c \<and> c \<le> 8202))"

definition isDigit :: "nat \<Rightarrow> bool" where
  "isDigit c = (48 \<le> c \<and> c \<le> 57)"

definition parseInt :: "jsstring \<Rightarrow> int option" where
  "parseInt v =
     (let s = dropWhile isWhiteSpace v;
          neg = (case s of [] \<Rightarrow> False | c # r \<Rightarrow> c = 45);
          t = (case s of [] \<Rightarrow> [] | c # r \<Rightarrow> if c = 45 \<or> c = 43 then r else s);
          ds = takeWhile isDigit t;
          n = foldl (\<lambda>a d. 10 * a + (int d - 48)) 0 ds
      in if ds = [] then None else Some (if neg then - n else n))"

text \<open>\<^verbatim>\<open>String.prototype.trim\<close>.\<close>

definition trim :: "jsstring \<Rightarrow> jsstring" where
  "trim s = rev (dropWhile isWhiteSpace (rev (dropWhile isWhiteSpace s)))"

section \<open>Persistence: saving (lines 2141-2154)\<close>

definition slotJson :: "slot \<Rightarrow> json" where
  "slotJson s = (case s of Strokes n \<Rightarrow> JNum (of_int n) | _ \<Rightarrow> JNull)"

definition playerJson :: "player \<Rightarrow> json" where
  "playerJson p =
     JObj [(u ''name'', JStr (name p)), (u ''scores'', JArr (map slotJson (scores p)))]"

text \<open>The object that \<^verbatim>\<open>saveState\<close> serialises; \<^verbatim>\<open>JSON.stringify\<close> leaves out a
  member whose value is \<^verbatim>\<open>undefined\<close>.\<close>

definition snapshot :: "world \<Rightarrow> json" where
  "snapshot w =
     JObj ([(u ''course'', currentCourse w),
            (u ''hole'', JNum (currentHole w)),
            (u ''players'', JArr (map playerJson (players w)))]
           @ (case gameStarted w of None \<Rightarrow> [] | Some g \<Rightarrow> [(u ''gameStarted'', g)]))"

definition saveState :: "world \<Rightarrow> world" where
  "saveState w = w\<lparr>storage := Some (Text (snapshot w))\<rparr>"

section \<open>Game flow (lines 1595-1815, 1956-1992, 2308-2330)\<close>

text \<open>
  \<^verbatim>\<open>renderHole\<close> (lines 1636-1720) repaints the page, but first it repairs the
  two variables it reads: an unknown course falls back to \<^verbatim>\<open>'dragon'\<close> and a hole
  number below 0 or not below 18 to 0. Only that part changes the state.
\<close>

definition renderHole :: "world \<Rightarrow> world" where
  "renderHole w =
     (let w1 = (if \<not> isValidCourse (currentCourse w)
                then w\<lparr>currentCourse := JStr (u ''dragon'')\<rparr> else w)
      in if currentHole w1 < 0 \<or> of_nat HOLES_COUNT \<le> currentHole w1
         then w1\<lparr>currentHole := 0\<rparr> else w1)"

text \<open>\<^verbatim>\<open>startGame\<close> (lines 1595-1634); \<open>inputs\<close> are the values of the name fields of
  the page, in order. The second test for an empty player list comes after the
  players have been assigned; it never fires, since there is one player per field.\<close>

definition newPlayer :: "nat \<Rightarrow> jsstring \<Rightarrow> player" where
  "newPlayer i v =
     \<lparr>name = take 20 (if trim v \<noteq> [] then trim v else u ''Player '' @ showInt (int i + 1)),
      scores = replicate HOLES_COUNT Null,
      total = 0\<rparr>"

definition startGame :: "jsstring list \<Rightarrow> world \<Rightarrow> rejection + world" where
  "startGame inputs w =
     (if length inputs = 0 then Inl (Toast (u ''Add at least one player''))
      else
        let ps = map (\<lambda>(i, v). newPlayer i v) (enumerate 0 inputs) in
        if length ps = 0 then Inl (Toast (u ''Add at least one player''))
        else
          let w1 = w\<lparr>players := ps\<rparr>;
              w2 = (if \<not> isValidCourse (currentCourse w1)
                    then w1\<lparr>currentCourse := JStr (u ''dragon'')\<rparr> else w1);
              w3 = w2\<lparr>gameStarted := Some (JBool True), currentHole := 0,
                      setupHidden := True, holeActive := True\<rparr>
          in Inr (saveState (renderHole w3)))"

text \<open>\<^verbatim>\<open>updateScore(playerIdx, value)\<close> (lines 1722-1755).\<close>

definition updateScore :: "rat \<Rightarrow> jsstring \<Rightarrow> world \<Rightarrow> rejection + world" where
  "updateScore playerIdx v w =
     (case parseInt v of
        None \<Rightarrow> Inl NotANumber
      | Some strokes \<Rightarrow>
          if \<not> isValidPlayerIndex w playerIdx then Inl InvalidPlayerIndex
          else if \<not> isValidScore (JNum (of_int strokes)) then Inl InvalidScore
          else if \<not> isValidCourse (currentCourse w) then Inl InvalidCourse
          else
            let i = nat \<lfloor>playerIdx\<rfloor>;
                p = players w ! i;
                sc = setSlot (scores p) (currentHole w) (Strokes strokes);
                p' = p\<lparr>scores := sc, total := totalOf sc\<rparr>
            in Inr (saveState (renderHole (w\<lparr>players := (players w)[i := p']\<rparr>))))"



text \<open>\<^verbatim>\<open>goBackToSetup\<close> (lines 1956-1992): the players stay, for the name fields.\<close>

definition goBackToSetup :: "world \<Rightarrow> world" where
  "goBackToSetup w =
     w\<lparr>gameStarted := Some (JBool False), holeActive := False, setupHidden := False,
       storage := None\<rparr>"

text \<open>
  The \<^verbatim>\<open>popstate\<close> handler (lines 2308-2330), which the browser runs when a back
  step lands on an earlier entry of this page.
\<close>

definition started :: "world \<Rightarrow> bool" where
  "started w = (case gameStarted w of None \<Rightarrow> False | Some g \<Rightarrow> truthy g)"

definition popstate :: "world \<Rightarrow> world" where
  "popstate w =
     (if modalActive w then w\<lparr>modalActive := False\<rparr>
      else if started w then
        (if currentHole w = 0 then goBackToSetup w
         else saveState (renderHole (w\<lparr>currentHole := currentHole w - 1\<rparr>)))
      else w)"

text \<open>
  \<^verbatim>\<open>previousHole\<close> (lines 1767-1772) assigns no variable: above hole 0 it calls
  \<^verbatim>\<open>history.back()\<close>, and that is all. What the browser then does depends on the
  history of the tab, which is not modelled: it runs the \<^verbatim>\<open>popstate\<close> handler only
  when an earlier entry of this page lies behind the current one (the
  \<^verbatim>\<open>pushState\<close> of \<^verbatim>\<open>startGame\<close> and \<^verbatim>\<open>nextHole\<close> makes such entries, the
  \<^verbatim>\<open>replaceState\<close> of \<^verbatim>\<open>loadState\<close> does not). So the value is the state, as it
  was, and the request made to the browser.
\<close>

datatype request = NoRequest | HistoryBack

definition previousHole :: "world \<Rightarrow> world \<times> request" where
  "previousHole w = (if 0 < currentHole w then (w, HistoryBack) else (w, NoRequest))"

text \<open>The back button of the button bar, as \<^verbatim>\<open>updateMobileButtons\<close> wires it (line
  1940): \<^verbatim>\<open>isFirstHole ? 'goBackToSetup()' : 'previousHole()'\<close>.\<close>

definition backButton :: "world \<Rightarrow> world \<times> request" where
  "backButton w =
     (if currentHole w = 0 then (goBackToSetup w, NoRequest) else previousHole w)"

section \<open>Scoring helpers (lines 1473-1506)\<close>

record description =
  desc_text :: jsstring
  desc_class :: jsstring

text \<open>\<^verbatim>\<open>getScoreDescription(strokes, par)\<close>, the checks in the order of the source.\<close>

definition getScoreDescription :: "int \<Rightarrow> int \<Rightarrow> description" where
  "getScoreDescription strokes par =
     (let diff = strokes - par in
      if strokes = 1 then
        \<lparr>desc_text = u ''Hole in One! '' @ [11088], desc_class = u ''hole-in-one''\<rparr>
      else if diff \<le> - 2 then
        \<lparr>desc_text = u ''Eagle! ('' @ showInt diff @ u '') '' @ [55358, 56709],
         desc_class = u ''eagle''\<rparr>
      else if diff = - 1 then
        \<lparr>desc_text = u ''Birdie! ('' @ [8722] @ u ''1) '' @ [55357, 56358],
         desc_class = u ''birdie''\<rparr>
      else if diff = 0 then
        \<lparr>desc_text = u ''Par '' @ [10003], desc_class = u ''par''\<rparr>
      else if diff = 1 then
        \<lparr>desc_text = u ''Bogey (+1)'', desc_class = u ''bogey''\<rparr>
      else if diff = 2 then
        \<lparr>desc_text = u ''Double Bogey (+2)'', desc_class = u ''double-bogey''\<rparr>
      else
        \<lparr>desc_text = u ''+'' @ showInt diff, desc_class = u ''high-score''\<rparr>)"

text \<open>
  \<^verbatim>\<open>getParDifferential(player)\<close> (lines 1485-1506). The loop runs over
  \<open>i = 0, 1, ...\<close> while \<^verbatim>\<open>i <= currentHole && i < pars.length\<close>, and carries
  \<open>parTotal\<close> and \<open>holesPlayed\<close>.
\<close>

function parLoop :: "int list \<Rightarrow> slot list \<Rightarrow> rat \<Rightarrow> nat \<Rightarrow> int \<times> nat \<Rightarrow> int \<times> nat" where
  "parLoop pars sc h i (parTotal, holesPlayed) =
     (if of_nat i \<le> h \<and> i < length pars
      then parLoop pars sc h (i + 1)
             (if slotAt sc (of_nat i) \<noteq> Null
              then (parTotal + pars ! i, holesPlayed + 1)
              else (parTotal, holesPlayed))
      else (parTotal, holesPlayed))"
  by pat_completeness auto
termination
  by (relation "measure (\<lambda>(pars, sc, h, i, acc). length pars - i)") auto

declare parLoop.simps [simp del]

definition getParDifferential :: "world \<Rightarrow> player option \<Rightarrow> jsstring" where
  "getParDifferential w po =
     (case po of
        None \<Rightarrow> u ''E''
      | Some player \<Rightarrow>
          if \<not> isValidCourse (currentCourse w) then u ''E''
          else
            (case parLoop (parsOf (currentCourse w)) (scores player) (currentHole w) 0 (0, 0) of
               (parTotal, holesPlayed) \<Rightarrow>
                 if holesPlayed = 0 then u ''E''
                 else
                   let diff = total player - parTotal in
                   if diff = 0 then u ''E''
                   else if diff > 0 then u ''+'' @ showInt diff
                   else showInt diff))"

text \<open>
  The reading of the par differential that the specification gives, to compare with
  the loop: the holes up to index \<open>t\<close> whose slot is not \<^verbatim>\<open>null\<close>, and the sum of
  their pars.
\<close>

definition scoredThrough :: "slot list \<Rightarrow> nat \<Rightarrow> nat list" where
  "scoredThrough sc t = filter (\<lambda>j. slotAt sc (of_nat j) \<noteq> Null) [0..<Suc t]"

definition runningPar :: "int list \<Rightarrow> slot list \<Rightarrow> nat \<Rightarrow> int" where
  "runningPar pars sc t = sum_list (map (\<lambda>j. pars ! j) (scoredThrough sc t))"

section \<open>Leaderboard (lines 1820-1910)\<close>

text \<open>
  \<^verbatim>\<open>[...players].sort((a, b) => a.total - b.total)\<close>. \<^verbatim>\<open>Array.prototype.sort\<close> is
  stable (ECMAScript 2019), so with a consistent comparison its result is the one
  of any stable sort; here each element, taken from the right, is put in front of
  the first element of the sorted rest that does not compare below it.
\<close>

fun insertBefore :: "('a \<Rightarrow> 'a \<Rightarrow> int) \<Rightarrow> 'a \<Rightarrow> 'a list \<Rightarrow> 'a list" where
  "insertBefore cmp x [] = [x]"
| "insertBefore cmp x (y # ys) =
     (if cmp x y \<le> 0 then x # y # ys else y # insertBefore cmp x ys)"

fun sortWith :: "('a \<Rightarrow> 'a \<Rightarrow> int) \<Rightarrow> 'a list \<Rightarrow> 'a list" where
  "sortWith cmp [] = []"
| "sortWith cmp (x # xs) = insertBefore cmp x (sortWith cmp xs)"

definition sortedByTotal :: "player list \<Rightarrow> player list" where
  "sortedByTotal ps = sortWith (\<lambda>a b. total a - total b) ps"

record row =
  rowHole :: nat
  rowPar :: "int option"
  rowScore :: slot
  rowDiff :: jsstring

record card =
  place :: nat
  trophy :: jsstring
  cardName :: jsstring
  rows :: "row list"
  cardPar :: int
  cardTotal :: int
  displayDiff :: jsstring
  achievements :: "jsstring list"

record leaderboard =
  winnerName :: jsstring
  winnerTotal :: int
  parText :: jsstring
  cards :: "card list"

text \<open>\<^verbatim>\<open>coursePars[currentCourse][hi]\<close>, \<open>None\<close> for \<^verbatim>\<open>undefined\<close>.\<close>

definition parAt :: "int list \<Rightarrow> nat \<Rightarrow> int option" where
  "parAt pars hi = (if hi < length pars then Some (pars ! hi) else None)"

text \<open>The text of a difference: \<^verbatim>\<open>d === 0 ? 'E' : d > 0 ? `+${d}` : `${d}`\<close>.\<close>

definition signedText :: "int \<Rightarrow> jsstring" where
  "signedText d = (if d = 0 then u ''E'' else if d > 0 then u ''+'' @ showInt d else showInt d)"

text \<open>One row of a score card; \<^verbatim>\<open>map\<close> and \<^verbatim>\<open>forEach\<close> pass over empty slots, and
  a stroke count minus \<^verbatim>\<open>undefined\<close> is \<^verbatim>\<open>NaN\<close>.\<close>

definition rowOf :: "int list \<Rightarrow> nat \<times> slot \<Rightarrow> row list" where
  "rowOf pars e =
     (case e of
        (hi, Empty) \<Rightarrow> []
      | (hi, Null) \<Rightarrow>
          [\<lparr>rowHole = hi + 1, rowPar = parAt pars hi, rowScore = Null, rowDiff = [8211]\<rparr>]
      | (hi, Strokes n) \<Rightarrow>
          [\<lparr>rowHole = hi + 1, rowPar = parAt pars hi, rowScore = Strokes n,
            rowDiff = (case parAt pars hi of
                         None \<Rightarrow> u ''NaN''
                       | Some par \<Rightarrow> signedText (n - par))\<rparr>])"

definition achievementsOf :: "int list \<Rightarrow> nat \<times> slot \<Rightarrow> jsstring list" where
  "achievementsOf pars e =
     (case e of
        (hi, Strokes score) \<Rightarrow>
          (if score = 1 then [[11088] @ u '' Hole in One''] else [])
          @ (case parAt pars hi of
               None \<Rightarrow> []
             | Some par \<Rightarrow> if score - par \<le> - 2 then [[55358, 56709] @ u '' Eagle''] else [])
      | _ \<Rightarrow> [])"

definition cardOf :: "int list \<Rightarrow> int \<Rightarrow> nat \<times> player \<Rightarrow> card" where
  "cardOf pars totalPar e =
     (case e of (i, player) \<Rightarrow>
        \<lparr>place = i + 1,
         trophy = (if i = 0 then [55356, 57286] else if i = 1 then [55358, 56648]
                   else if i = 2 then [55358, 56649] else []),
         cardName = name player,
         rows = concat (map (rowOf pars) (enumerate 0 (scores player))),
         cardPar = totalPar,
         cardTotal = total player,
         displayDiff = signedText (total player - totalPar),
         achievements = concat (map (achievementsOf pars) (enumerate 0 (scores player)))\<rparr>)"

text \<open>What \<^verbatim>\<open>buildLeaderboard\<close> paints; \<open>None\<close> when it returns early (no players,
  or an unknown course).\<close>

definition buildLeaderboard :: "world \<Rightarrow> leaderboard option" where
  "buildLeaderboard w =
     (if length (players w) = 0 then None
      else if \<not> isValidCourse (currentCourse w) then None
      else
        let sorted = sortedByTotal (players w);
            pars = parsOf (currentCourse w);
            totalPar = foldl (\<lambda>a b. a + b) 0 pars;
            winner = hd sorted;
            diff = total winner - totalPar
        in Some
          \<lparr>winnerName = name winner,
           winnerTotal = total winner,
           parText = (if diff = 0 then u ''at par''
                      else if diff > 0 then showInt diff @ u '' over par''
                      else showInt \<bar>diff\<bar> @ u '' under par''),
           cards = map (cardOf pars totalPar) (enumerate 0 sorted)\<rparr>)"

section \<open>Persistence: loading (lines 2156-2235)\<close>

text \<open>A member \<^verbatim>\<open>v.k\<close> of a parsed value, \<open>None\<close> for \<^verbatim>\<open>undefined\<close>; of a repeated
  member name \<^verbatim>\<open>JSON.parse\<close> keeps the last.\<close>

definition member :: "json \<Rightarrow> jsstring \<Rightarrow> json option" where
  "member v k = (case v of JObj kvs \<Rightarrow> map_of (rev kvs) k | _ \<Rightarrow> None)"

text \<open>
  \<^verbatim>\<open>String(v)\<close>; \<open>None\<close> is the \<^verbatim>\<open>TypeError\<close> of an object that has a member
  named \<^verbatim>\<open>toString\<close> (which is not callable). The text of a number is left to the
  parameter \<open>numText\<close>.
\<close>

fun joinCommas :: "jsstring option list \<Rightarrow> jsstring option" where
  "joinCommas [] = Some []"
| "joinCommas [x] = x"
| "joinCommas (x # y # ys) =
     (case x of
        None \<Rightarrow> None
      | Some a \<Rightarrow> (case joinCommas (y # ys) of None \<Rightarrow> None | Some b \<Rightarrow> Some (a @ 44 # b)))"

fun jsString :: "(rat \<Rightarrow> jsstring) \<Rightarrow> json \<Rightarrow> jsstring option" where
  "jsString numText JNull = Some (u ''null'')"
| "jsString numText (JBool b) = Some (if b then u ''true'' else u ''false'')"
| "jsString numText (JNum r) = Some (numText r)"
| "jsString numText (JStr s) = Some s"
| "jsString numText (JArr xs) =
     joinCommas (map (\<lambda>x. if x = JNull then Some [] else jsString numText x) xs)"
| "jsString numText (JObj kvs) =
     (if map_of kvs (u ''toString'') \<noteq> None then None else Some (u ''[object Object]''))"

text \<open>The three parts of the player mapping (lines 2200-2206).\<close>

definition loadName :: "(rat \<Rightarrow> jsstring) \<Rightarrow> json \<Rightarrow> jsstring option" where
  "loadName numText p =
     (case (if truthy p then member p (u ''name'') else None) of
        None \<Rightarrow> Some (u ''Player'')
      | Some v \<Rightarrow>
          if truthy v
          then (case jsString numText v of None \<Rightarrow> None | Some s \<Rightarrow> Some (take 20 s))
          else Some (u ''Player''))"

definition loadSlot :: "json \<Rightarrow> slot" where
  "loadSlot s =
     (if s \<noteq> JNull \<and> isValidScore s
      then (case s of JNum r \<Rightarrow> Strokes \<lfloor>r\<rfloor> | _ \<Rightarrow> Null)
      else Null)"

definition loadScores :: "json \<Rightarrow> slot list" where
  "loadScores p =
     (case (if truthy p then member p (u ''scores'') else None) of
        Some (JArr ss) \<Rightarrow>
          if length ss = HOLES_COUNT then map loadSlot ss else replicate HOLES_COUNT Null
      | _ \<Rightarrow> replicate HOLES_COUNT Null)"

definition loadPlayer :: "(rat \<Rightarrow> jsstring) \<Rightarrow> json \<Rightarrow> player option" where
  "loadPlayer numText p =
     (case loadName numText p of
        None \<Rightarrow> None
      | Some n \<Rightarrow> Some \<lparr>name = n, scores = loadScores p, total = 0\<rparr>)"

fun allOrNone :: "'a option list \<Rightarrow> 'a list option" where
  "allOrNone [] = Some []"
| "allOrNone (None # xs) = None"
| "allOrNone (Some x # xs) = (case allOrNone xs of None \<Rightarrow> None | Some ys \<Rightarrow> Some (x # ys))"

text \<open>
  \<^verbatim>\<open>loadState\<close>: the returned flag and the state it leaves. Every rejection of a
  stored text removes the entry; an exception while the players are mapped does so
  after the course and the started flag have been assigned.
\<close>

definition discard :: "world \<Rightarrow> bool \<times> world" where
  "discard w = (False, w\<lparr>storage := None\<rparr>)"

definition loadState :: "(rat \<Rightarrow> jsstring) \<Rightarrow> world \<Rightarrow> bool \<times> world" where
  "loadState numText w =
     (case storage w of
        None \<Rightarrow> (False, w)
      | Some EmptyText \<Rightarrow> (False, w)
      | Some Malformed \<Rightarrow> discard w
      | Some (Text parsed) \<Rightarrow>
          if parsed = JNull then discard w
          else
            (case member parsed (u ''course'') of
               None \<Rightarrow> discard w
             | Some course \<Rightarrow>
                 if \<not> isValidCourse course then discard w
                 else
                   (case member parsed (u ''players'') of
                      Some (JArr ps) \<Rightarrow>
                        if length ps = 0 then discard w
                        else
                          (case member parsed (u ''hole'') of
                             Some (JNum hole) \<Rightarrow>
                               if hole < 0 \<or> of_nat HOLES_COUNT \<le> hole then discard w
                               else
                                 let w1 = w\<lparr>currentCourse := course,
                                            gameStarted := member parsed (u ''gameStarted'')\<rparr>
                                 in (case allOrNone (map (loadPlayer numText) ps) of
                                       None \<Rightarrow> discard w1
                                     | Some loaded \<Rightarrow>
                                         (True,
                                          renderHole
                                            (w1\<lparr>players :=
                                                   map (\<lambda>p. p\<lparr>total := totalOf (scores p)\<rparr>) loaded,
                                                 setupHidden := True, holeActive := True,
                                                 currentHole := hole\<rparr>)))
                           | _ \<Rightarrow> discard w)
                    | _ \<Rightarrow> discard w)))"

text \<open>
  The players that the loader gives back unchanged: a name that is not empty and has
  at most 20 code units, and 18 slots, each \<^verbatim>\<open>null\<close> or a stroke count in 1..11.
\<close>

definition validSlot :: "slot \<Rightarrow> bool" where
  "validSlot s = (case s of Empty \<Rightarrow> False | Null \<Rightarrow> True | Strokes n \<Rightarrow> 1 \<le> n \<and> n \<le> 11)"

definition validPlayer :: "player \<Rightarrow> bool" where
  "validPlayer p =
     (name p \<noteq> [] \<and> length (name p) \<le> 20 \<and> length (scores p) = 18
      \<and> list_all validSlot (scores p))"

section \<open>Example rounds\<close>

text \<open>Concrete states on which the theorems below are exercised.\<close>

definition roundAt :: "nat \<Rightarrow> player list \<Rightarrow> world" where
  "roundAt h ps =
     \<lparr>currentCourse = JStr (u ''dragon''), players = ps, currentHole = of_nat h,
      gameStarted = Some (JBool True), storage = None, setupHidden = True,
      holeActive = True, summaryActive = False, modalActive = False\<rparr>"

definition amy :: player where
  "amy = \<lparr>name = u ''Amy'', scores = Strokes 1 # replicate 17 Null, total = 1\<rparr>"

definition bo :: player where
  "bo = \<lparr>name = u ''Bo'', scores = replicate 18 Null, total = 0\<rparr>"

definition cy :: player where
  "cy = \<lparr>name = u ''Cy'', scores = replicate 18 (Strokes 2), total = 36\<rparr>"

definition dee :: player where
  "dee = \<lparr>name = u ''Dee'', scores = Strokes 1 # Strokes 3 # replicate 16 Null, total = 4\<rparr>"

definition eli :: player where
  "eli = \<lparr>name = u ''Eli'', scores = Strokes 4 # replicate 17 Null, total = 4\<rparr>"

text \<open>The state of a page that was just opened, with the given storage entry.\<close>

definition freshPage :: "item option \<Rightarrow> world" where
  "freshPage entry =
     \<lparr>currentCourse = JStr (u ''dragon''), players = [], currentHole = 0,
      gameStarted = Some (JBool False), storage = entry, setupHidden = False,
      holeActive = False, summaryActive = False, modalActive = False\<rparr>"

definition nameless :: player where
  "nameless = \<lparr>name = [], scores = replicate 18 Null, total = 0\<rparr>"

definition longName :: player where
  "longName = \<lparr>name = u ''Bartholomew the Third'', scores = replicate 18 Null, total = 0\<rparr>"

text \<open>A stored round of one player, with the hole member and the first score left open;
  the \<^verbatim>\<open>total\<close> member is one the program never writes.\<close>

definition storedRound :: "json \<Rightarrow> json \<Rightarrow> json" where
  "storedRound hole score =
     JObj [(u ''course'', JStr (u ''dragon'')),
           (u ''hole'', hole),
           (u ''players'',
              JArr [JObj [(u ''name'', JStr (u ''Amy'')),
                          (u ''scores'', JArr (score # JNum 3 # replicate 16 JNull)),
                          (u ''total'', JNum 99)]]),
           (u ''gameStarted'', JBool True)]"

section \<open>Basic facts\<close>

lemma totalOf_sum_list: "totalOf xs = sum_list (strokesIn xs)"
proof -
  have "foldl (\<lambda>sum s. sum + s) a ys = a + sum_list ys" for a :: int and ys
    by (induction ys arbitrary: a) auto
  then show ?thesis by (simp add: totalOf_def)
qed

lemma isInteger_simps [simp]:
  "isInteger 0" "isInteger 1" "isInteger (numeral k)" "isInteger (of_nat n)"
  "isInteger (of_int z)"
  by (simp_all add: isInteger_def)

lemma slotAt_nat [simp]:
  "slotAt xs (of_nat i) = (if i < length xs then xs ! i else Empty)"
  by (simp add: slotAt_def isIndex_def isInteger_def)

lemma slotAt_0 [simp]: "slotAt xs 0 = (if 0 < length xs then xs ! 0 else Empty)"
  using slotAt_nat [of xs 0] by simp

lemma slotAt_numeral [simp]:
  "slotAt xs (numeral k) = (if numeral k < length xs then xs ! numeral k else Empty)"
  using slotAt_nat [of xs "numeral k"] by simp

lemma setSlot_nat [simp]:
  "setSlot xs (of_nat i) v =
     (if i < length xs then xs[i := v] else xs @ replicate (i - length xs) Empty @ [v])"
  by (simp add: setSlot_def isIndex_def isInteger_def)

lemma isValidScore_int [simp]:
  "isValidScore (JNum (of_int n)) = (1 \<le> n \<and> n \<le> 11)"
  by (simp add: isValidScore_def isInteger_def)

lemma isValidPlayerIndex_nat [simp]:
  "isValidPlayerIndex w (of_nat i) = (i < length (players w))"
  by (simp add: isValidPlayerIndex_def isInteger_def)

lemma snapshot_storage [simp]: "snapshot (w\<lparr>storage := x\<rparr>) = snapshot w"
  by (simp add: snapshot_def)

lemma renderHole_players [simp]: "players (renderHole w) = players w"
  by (simp add: renderHole_def Let_def)

lemma renderHole_gameStarted [simp]: "gameStarted (renderHole w) = gameStarted w"
  by (simp add: renderHole_def Let_def)

lemma renderHole_storage [simp]: "storage (renderHole w) = storage w"
  by (simp add: renderHole_def Let_def)

lemma renderHole_hole:
  "currentHole (renderHole w) =
     (if currentHole w < 0 \<or> 18 \<le> currentHole w then 0 else currentHole w)"
  by (simp add: renderHole_def Let_def HOLES_COUNT_def)


lemma isValidCourse_JStr [simp]:
  "isValidCourse (JStr s) = (s = u ''dragon'' \<or> s = u ''knight'')"
  by (auto simp: isValidCourse_def hasOwnProperty_def courseNames_def coursePars_def)

lemma enumerate_Nil_iff [simp]: "(enumerate n xs = []) = (xs = [])"
  by (cases xs) simp_all

lemma dropWhile_id: "xs \<noteq> [] \<Longrightarrow> \<not> P (hd xs) \<Longrightarrow> dropWhile P xs = xs"
  by (cases xs) auto

lemma trim_id:
  assumes "s \<noteq> []" and "\<not> isWhiteSpace (hd s)" and "\<not> isWhiteSpace (last s)"
  shows "trim s = s"
proof -
  have "dropWhile isWhiteSpace s = s"
    using assms by (simp add: dropWhile_id)
  moreover have "dropWhile isWhiteSpace (rev s) = rev s"
    using assms by (simp add: dropWhile_id hd_rev)
  ultimately show ?thesis by (simp add: trim_def)
qed

lemma startGame_players:
  "inputs \<noteq> [] \<Longrightarrow>
   startGame inputs w =
     Inr (saveState (renderHole
       ((if \<not> isValidCourse (currentCourse w)
         then w\<lparr>players := map (\<lambda>(i, v). newPlayer i v) (enumerate 0 inputs),
                 currentCourse := JStr (u ''dragon'')\<rparr>
         else w\<lparr>players := map (\<lambda>(i, v). newPlayer i v) (enumerate 0 inputs)\<rparr>)
        \<lparr>gameStarted := Some (JBool True), currentHole := 0,
          setupHidden := True, holeActive := True\<rparr>)))"
  by (simp add: startGame_def Let_def)

text \<open>The players that \<open>startGame\<close> makes are of the kind the loader gives back
  unchanged, and \<open>updateScore\<close> keeps them so.\<close>

lemma newPlayer_valid: "validPlayer (newPlayer i v)"
  by (simp add: validPlayer_def newPlayer_def HOLES_COUNT_def list_all_iff validSlot_def)

lemma startGame_valid:
  assumes "startGame inputs w = Inr w'"
  shows "list_all validPlayer (players w') \<and> currentHole w' = 0"
proof -
  have ne: "inputs \<noteq> []"
    using assms by (auto simp: startGame_def)
  have pl: "players w' = map (\<lambda>(i, v). newPlayer i v) (enumerate 0 inputs)"
    and h: "currentHole w' = 0"
    using assms
    by (cases "isValidCourse (currentCourse w)";
        auto simp: startGame_players [OF ne] saveState_def renderHole_hole)+
  show ?thesis
    by (auto simp: pl h list_all_iff newPlayer_valid)
qed

lemma updateScore_valid:
  assumes "updateScore idx v w = Inr w'" and "list_all validPlayer (players w)"
    and "currentHole w = of_nat h" and "h < 18"
  shows "list_all validPlayer (players w') \<and> currentHole w' = currentHole w"
proof -
  obtain s where s: "parseInt v = Some s" "1 \<le> s" "s \<le> 11"
    and i: "isValidPlayerIndex w idx" and c: "isValidCourse (currentCourse w)"
    using assms(1) by (auto simp: updateScore_def split: option.splits if_splits)
  let ?i = "nat \<lfloor>idx\<rfloor>"
  have il: "?i < length (players w)"
    using i by (simp add: isValidPlayerIndex_def) linarith
  have vp: "validPlayer (players w ! ?i)"
    using assms(2) il by (simp add: list_all_iff)
  then have hl: "h < length (scores (players w ! ?i))"
    using assms(4) by (simp add: validPlayer_def)
  let ?p = "(players w ! ?i)\<lparr>scores := (scores (players w ! ?i))[h := Strokes s],
      total := totalOf ((scores (players w ! ?i))[h := Strokes s])\<rparr>"
  have w': "w' = saveState (renderHole (w\<lparr>players := (players w)[?i := ?p]\<rparr>))"
    using assms(1,3) s i c hl by (simp add: updateScore_def Let_def)
  have "validPlayer ?p"
    using vp s(2,3)
    by (auto simp: validPlayer_def list_all_iff validSlot_def dest!: set_update_subset_insert [THEN subsetD])
  then have "list_all validPlayer ((players w)[?i := ?p])"
    using assms(2)
    by (auto simp: list_all_iff dest!: set_update_subset_insert [THEN subsetD])
  then show ?thesis
    using assms(3,4) by (simp add: w' saveState_def renderHole_hole)
qed

lemma parLoop_closed:
  "parLoop pars sc (of_nat t) i (a, n) =
     (a + sum_list (map (\<lambda>j. pars ! j)
            (filter (\<lambda>j. slotAt sc (of_nat j) \<noteq> Null) [i..<min (Suc t) (length pars)])),
      n + length (filter (\<lambda>j. slotAt sc (of_nat j) \<noteq> Null) [i..<min (Suc t) (length pars)]))"
proof (induction "min (Suc t) (length pars) - i" arbitrary: i a n)
  case 0
  then have stop: "\<not> (i \<le> t \<and> i < length pars)" by auto
  have empty: "[i..<min (Suc t) (length pars)] = []"
    using 0 by simp
  have "parLoop pars sc (of_nat t) i (a, n) = (a, n)"
    using stop by (subst parLoop.simps) (auto simp del: slotAt_nat)
  then show ?case by (simp add: empty)
next
  case (Suc k)
  then have go: "i \<le> t \<and> i < length pars" by auto
  have cons: "[i..<min (Suc t) (length pars)] = i # [Suc i..<min (Suc t) (length pars)]"
    using go by (simp add: upt_conv_Cons)
  have k: "k = min (Suc t) (length pars) - Suc i"
    using Suc.hyps(2) by simp
  show ?case
  proof (cases "slotAt sc (of_nat i) \<noteq> Null")
    case True
    have "parLoop pars sc (of_nat t) i (a, n) =
            parLoop pars sc (of_nat t) (Suc i) (a + pars ! i, n + 1)"
      using go True by (subst parLoop.simps) (auto simp del: slotAt_nat)
    then show ?thesis
      using True by (simp add: Suc.hyps(1) [OF k] cons del: slotAt_nat)
  next
    case False
    have "parLoop pars sc (of_nat t) i (a, n) = parLoop pars sc (of_nat t) (Suc i) (a, n)"
      using go False by (subst parLoop.simps) (auto simp del: slotAt_nat)
    then show ?thesis
      using False by (simp add: Suc.hyps(1) [OF k] cons del: slotAt_nat)
  qed
qed

lemma parsOf_valid:
  "isValidCourse c \<Longrightarrow> parsOf c = [2, 3, 2, 3, 2, 3, 2, 3, 2, 3, 2, 3, 2, 3, 2, 3, 2, 4]"
  by (auto simp: isValidCourse_def hasOwnProperty_def parsOf_def coursePars_def
      split: option.splits if_splits)

lemma digitsOf_not_Nil [simp]: "digitsOf n \<noteq> []"
  by (subst digitsOf.simps) simp

lemma showInt_pos: "0 \<le> d \<Longrightarrow> showInt d = digitsOf (nat d)"
  by (simp add: showInt_def)

lemma showInt_neg: "d < 0 \<Longrightarrow> showInt d = 45 # digitsOf (nat (- d))"
  by (simp add: showInt_def)

lemma getParDifferential_spec:
  assumes "isValidCourse (currentCourse w)" and "currentHole w = of_nat t" and "t \<le> 17"
  shows "getParDifferential w (Some p) =
     (if scoredThrough (scores p) t = [] then u ''E''
      else if total p = runningPar (parsOf (currentCourse w)) (scores p) t then u ''E''
      else if total p > runningPar (parsOf (currentCourse w)) (scores p) t
      then u ''+'' @ showInt (total p - runningPar (parsOf (currentCourse w)) (scores p) t)
      else u ''-'' @ showInt (runningPar (parsOf (currentCourse w)) (scores p) t - total p))"
proof -
  have len: "min (Suc t) (length (parsOf (currentCourse w))) = Suc t"
    using assms(1,3) by (simp add: parsOf_valid)
  have loop: "parLoop (parsOf (currentCourse w)) (scores p) (of_nat t) 0 (0, 0) =
      (runningPar (parsOf (currentCourse w)) (scores p) t, length (scoredThrough (scores p) t))"
    by (simp add: parLoop_closed len runningPar_def scoredThrough_def del: slotAt_nat)
  show ?thesis
    using assms(1)
    by (simp add: getParDifferential_def assms(2) loop Let_def showInt_neg showInt_pos)
qed


lemma set_insertBefore [simp]: "set (insertBefore cmp x ys) = insert x (set ys)"
  by (induction ys) auto

lemma mset_insertBefore [simp]: "mset (insertBefore cmp x ys) = add_mset x (mset ys)"
  by (induction ys) auto

lemma mset_sortWith [simp]: "mset (sortWith cmp xs) = mset xs"
  by (induction xs) auto

lemma sorted_insertBefore:
  "sorted_wrt (\<lambda>a b. total a \<le> total b) ys \<Longrightarrow>
   sorted_wrt (\<lambda>a b. total a \<le> total b) (insertBefore (\<lambda>a b. total a - total b) x ys)"
  by (induction ys) auto

lemma sorted_sortedByTotal: "sorted_wrt (\<lambda>a b. total a \<le> total b) (sortedByTotal ps)"
  unfolding sortedByTotal_def by (induction ps) (auto intro: sorted_insertBefore)

lemma filter_insertBefore:
  "filter (\<lambda>p. total p = k) (insertBefore (\<lambda>a b. total a - total b) x ys) =
     (if total x = k then x # filter (\<lambda>p. total p = k) ys else filter (\<lambda>p. total p = k) ys)"
  by (induction ys) auto

lemma stable_sortedByTotal:
  "filter (\<lambda>p. total p = k) (sortedByTotal ps) = filter (\<lambda>p. total p = k) ps"
  unfolding sortedByTotal_def by (induction ps) (auto simp: filter_insertBefore)

lemma member_snapshot:
  "member (snapshot w) k =
     (if k = u ''course'' then Some (currentCourse w)
      else if k = u ''hole'' then Some (JNum (currentHole w))
      else if k = u ''players'' then Some (JArr (map playerJson (players w)))
      else if k = u ''gameStarted'' then gameStarted w
      else None)"
  by (simp add: member_def snapshot_def split: option.splits)

lemma snapshot_not_null [simp]: "snapshot w \<noteq> JNull"
  by (simp add: snapshot_def)

lemma member_playerJson:
  "member (playerJson p) k =
     (if k = u ''name'' then Some (JStr (name p))
      else if k = u ''scores'' then Some (JArr (map slotJson (scores p)))
      else None)"
  by (simp add: member_def playerJson_def)

lemma truthy_playerJson [simp]: "truthy (playerJson p)"
  by (simp add: playerJson_def)

lemma validSlot_iff:
  "validSlot s = (s = Null \<or> (\<exists>n. s = Strokes n \<and> 1 \<le> n \<and> n \<le> 11))"
  by (cases s) (simp_all add: validSlot_def)

lemma strokesIn_replicate_Null [simp]: "strokesIn (replicate n Null) = []"
  by (induction n) simp_all

lemma loadSlot_slotJson: "validSlot s \<Longrightarrow> loadSlot (slotJson s) = s"
  by (cases s) (simp_all add: validSlot_def loadSlot_def slotJson_def)

lemma loadName_playerJson:
  "loadName numText (playerJson p) =
     Some (if name p \<noteq> [] then take 20 (name p) else u ''Player'')"
  by (simp add: loadName_def member_playerJson)

lemma loadScores_playerJson:
  "loadScores (playerJson p) =
     (if length (scores p) = 18 then map (\<lambda>s. loadSlot (slotJson s)) (scores p)
      else replicate 18 Null)"
  by (simp add: loadScores_def member_playerJson HOLES_COUNT_def comp_def)

lemma loadPlayer_playerJson:
  assumes "validPlayer p"
  shows "loadPlayer numText (playerJson p) = Some (p\<lparr>total := 0\<rparr>)"
proof -
  have "map (\<lambda>s. loadSlot (slotJson s)) (scores p) = scores p"
    using assms by (simp add: validPlayer_def list_all_iff loadSlot_slotJson map_idI)
  then show ?thesis
    using assms
    by (simp add: loadPlayer_def loadName_playerJson loadScores_playerJson validPlayer_def)
qed

lemma allOrNone_Some: "allOrNone (map Some xs) = Some xs"
  by (induction xs) auto

lemma loadPlayers_roundtrip:
  assumes "list_all validPlayer ps"
  shows "allOrNone (map (\<lambda>p. loadPlayer numText (playerJson p)) ps) =
           Some (map (\<lambda>p. p\<lparr>total := 0\<rparr>) ps)"
proof -
  have "map (\<lambda>p. loadPlayer numText (playerJson p)) ps = map Some (map (\<lambda>p. p\<lparr>total := 0\<rparr>) ps)"
    using assms by (simp add: list_all_iff loadPlayer_playerJson)
  then show ?thesis by (simp only: allOrNone_Some)
qed

lemma loadState_saveState:
  assumes "isValidCourse (currentCourse w)" and "players w \<noteq> []"
    and "list_all validPlayer (players w)"
    and "0 \<le> currentHole w" and "currentHole w < 18"
  shows "loadState numText (w0\<lparr>storage := storage (saveState w)\<rparr>) =
     (True,
      w0\<lparr>storage := Some (Text (snapshot w)),
         currentCourse := currentCourse w,
         gameStarted := gameStarted w,
         players := map (\<lambda>p. p\<lparr>total := totalOf (scores p)\<rparr>) (players w),
         setupHidden := True, holeActive := True,
         currentHole := currentHole w\<rparr>)"
  using assms
  by (simp add: loadState_def saveState_def member_snapshot loadPlayers_roundtrip
      HOLES_COUNT_def renderHole_def Let_def comp_def)


lemma loadState_discards:
  assumes "storage w = Some (Text j)"
  shows "(\<forall>c. member j (u ''course'') = Some c \<longrightarrow> \<not> isValidCourse c)
           \<longrightarrow> loadState numText w = (False, w\<lparr>storage := None\<rparr>)"
    and "(\<forall>ps. member j (u ''players'') = Some (JArr ps) \<longrightarrow> ps = [])
           \<longrightarrow> loadState numText w = (False, w\<lparr>storage := None\<rparr>)"
    and "(\<forall>h. member j (u ''hole'') = Some (JNum h) \<longrightarrow> h < 0 \<or> 18 \<le> h)
           \<longrightarrow> loadState numText w = (False, w\<lparr>storage := None\<rparr>)"
  using assms
  by (auto simp: loadState_def discard_def HOLES_COUNT_def member_def
      split: option.splits json.splits)

section \<open>Classification of a score\<close>

text \<open>
  C3. For strokes in 1..11 and par in {2, 3, 4}, \<open>getScoreDescription\<close> returns one of
  seven pairwise different categories, and each category is returned exactly on its
  own condition: hole-in-one when strokes is 1, whatever the par; otherwise eagle
  when strokes - par is at most -2, birdie at -1, par at 0, bogey at 1, double bogey
  at 2 and the over-par category from 3 on. One stroke on a par 3 is a hole in one,
  not an eagle, although the difference is -2.
\<close>

theorem classify_by_ordered_checks:
  assumes "1 \<le> strokes" and "strokes \<le> 11" and "par \<in> {2, 3, 4}"
  shows "(desc_class (getScoreDescription strokes par) = u ''hole-in-one'' \<longleftrightarrow> strokes = 1)
    \<and> (desc_class (getScoreDescription strokes par) = u ''eagle''
          \<longleftrightarrow> strokes \<noteq> 1 \<and> strokes - par \<le> - 2)
    \<and> (desc_class (getScoreDescription strokes par) = u ''birdie''
          \<longleftrightarrow> strokes \<noteq> 1 \<and> strokes - par = - 1)
    \<and> (desc_class (getScoreDescription strokes par) = u ''par''
          \<longleftrightarrow> strokes \<noteq> 1 \<and> strokes - par = 0)
    \<and> (desc_class (getScoreDescription strokes par) = u ''bogey''
          \<longleftrightarrow> strokes \<noteq> 1 \<and> strokes - par = 1)
    \<and> (desc_class (getScoreDescription strokes par) = u ''double-bogey''
          \<longleftrightarrow> strokes \<noteq> 1 \<and> strokes - par = 2)
    \<and> (desc_class (getScoreDescription strokes par) = u ''high-score''
          \<longleftrightarrow> strokes \<noteq> 1 \<and> 3 \<le> strokes - par)
    \<and> desc_class (getScoreDescription strokes par)
          \<in> {u ''hole-in-one'', u ''eagle'', u ''birdie'', u ''par'', u ''bogey'',
              u ''double-bogey'', u ''high-score''}
    \<and> desc_class (getScoreDescription 1 3) = u ''hole-in-one''
    \<and> 1 - (3::int) \<le> - 2"
  by (simp add: getScoreDescription_def Let_def)

theorem classify_by_ordered_checks_witness:
  "desc_class (getScoreDescription 2 4) = u ''eagle''
   \<and> desc_class (getScoreDescription 1 2) = u ''hole-in-one''
   \<and> desc_class (getScoreDescription 11 2) = u ''high-score''"
  using classify_by_ordered_checks [of 2 4] classify_by_ordered_checks [of 1 2]
    classify_by_ordered_checks [of 11 2]
  by simp

section \<open>Par differential\<close>

text \<open>
  C4. For a known course and a hole index \<open>t\<close> in 0..17, \<open>getParDifferential\<close> of a
  player compares the player's total with the sum of the pars of the holes at index
  at most \<open>t\<close> whose slot is not \<^verbatim>\<open>null\<close>; a \<^verbatim>\<open>null\<close> slot below the index adds
  nothing. The result is "E" exactly when no such hole exists or the total equals
  that sum, "+N" when the total is N above it and "-N" when it is N below. The
  function is total: a \<^verbatim>\<open>null\<close> slot at the current hole is one more slot that is
  passed over.
\<close>

theorem parDifferential_counts_scored_holes:
  assumes "isValidCourse (currentCourse w)" and "currentHole w = of_nat t" and "t \<le> 17"
  shows "(getParDifferential w (Some p) = u ''E''
            \<longleftrightarrow> scoredThrough (scores p) t = []
               \<or> total p = runningPar (parsOf (currentCourse w)) (scores p) t)
       \<and> (scoredThrough (scores p) t \<noteq> []
            \<and> total p > runningPar (parsOf (currentCourse w)) (scores p) t
          \<longrightarrow> getParDifferential w (Some p) =
                u ''+'' @ showInt (total p - runningPar (parsOf (currentCourse w)) (scores p) t))
       \<and> (scoredThrough (scores p) t \<noteq> []
            \<and> total p < runningPar (parsOf (currentCourse w)) (scores p) t
          \<longrightarrow> getParDifferential w (Some p) =
                u ''-'' @ showInt (runningPar (parsOf (currentCourse w)) (scores p) t - total p))
       \<and> runningPar (parsOf (currentCourse w)) (scores p) t =
           (\<Sum>j\<leftarrow>[0..<Suc t]. if slotAt (scores p) (of_nat j) = Null then 0
                              else parsOf (currentCourse w) ! j)
       \<and> parsOf (currentCourse w) = [2, 3, 2, 3, 2, 3, 2, 3, 2, 3, 2, 3, 2, 3, 2, 3, 2, 4]"
proof -
  have sum: "runningPar (parsOf (currentCourse w)) (scores p) t =
           (\<Sum>j\<leftarrow>[0..<Suc t]. if slotAt (scores p) (of_nat j) = Null then 0
                              else parsOf (currentCourse w) ! j)"
    unfolding runningPar_def scoredThrough_def sum_list_map_filter'
    by (rule arg_cong [where f = sum_list]) (simp del: slotAt_nat upt_Suc)
  show ?thesis
    using assms(1) sum
    by (simp add: getParDifferential_spec [OF assms] parsOf_valid del: upt_Suc slotAt_nat)
qed

theorem parDifferential_counts_scored_holes_witness:
  "getParDifferential (roundAt 1 [dee]) (Some dee) = u ''-1''
   \<and> getParDifferential (roundAt 1 [eli]) (Some eli) = u ''+2''
   \<and> getParDifferential (roundAt 0 [bo]) (Some bo) = u ''E''
   \<and> getParDifferential (roundAt 17 [cy]) (Some cy) = u ''-10''"
proof -
  have v: "isValidCourse (currentCourse (roundAt h ps))"
    "currentHole (roundAt h ps) = of_nat h" for h ps
    by (simp_all add: roundAt_def)
  have p: "parsOf (currentCourse (roundAt h ps)) =
      [2, 3, 2, 3, 2, 3, 2, 3, 2, 3, 2, 3, 2, 3, 2, 3, 2, 4]" for h ps
    by (simp add: roundAt_def parsOf_def coursePars_def)
  have s: "scoredThrough (scores dee) 1 = [0, 1]" "scoredThrough (scores eli) 1 = [0]"
    "scoredThrough (scores bo) 0 = []" "scoredThrough (scores cy) 17 = [0..<18]"
    by (simp_all add: scoredThrough_def dee_def eli_def bo_def cy_def upt_rec)
  have r: "runningPar (parsOf (currentCourse (roundAt 1 [dee]))) (scores dee) 1 = 5"
    "runningPar (parsOf (currentCourse (roundAt 1 [eli]))) (scores eli) 1 = 2"
    "runningPar (parsOf (currentCourse (roundAt 17 [cy]))) (scores cy) 17 = 46"
    using s by (simp_all add: runningPar_def p upt_rec)
  have t: "total dee = 4" "total eli = 4" "total cy = 36"
    by (simp_all add: dee_def eli_def cy_def)
  have d: "showInt 1 = [49]" "showInt 2 = [50]" "showInt 10 = [49, 48]"
    by (simp_all add: showInt_def digitsOf.simps)
  have a: "getParDifferential (roundAt 1 [dee]) (Some dee) = u ''-1''"
    using parDifferential_counts_scored_holes [OF v(1) v(2), of 1 "[dee]" dee] s(1) r(1) t(1)
    by (simp add: d)
  have b: "getParDifferential (roundAt 1 [eli]) (Some eli) = u ''+2''"
    using parDifferential_counts_scored_holes [OF v(1) v(2), of 1 "[eli]" eli] s(2) r(2) t(2)
    by (simp add: d)
  have c: "getParDifferential (roundAt 0 [bo]) (Some bo) = u ''E''"
    using parDifferential_counts_scored_holes [OF v(1) v(2), of 0 "[bo]" bo] s(3)
    by simp
  have e: "getParDifferential (roundAt 17 [cy]) (Some cy) = u ''-10''"
    using parDifferential_counts_scored_holes [OF v(1) v(2), of 17 "[cy]" cy] s(4) r(3) t(3)
    by (simp add: d)
  from a b c e show ?thesis by simp
qed

section \<open>Advancing to the next hole\<close>



section \<open>Recording a score\<close>



section \<open>Starting a round\<close>

text \<open>
  C8. \<open>startGame\<close> with no name field is rejected with the message "Add at least one
  player" and returns no new state. Otherwise it makes one player per field, in
  order: 18 slots, all \<^verbatim>\<open>null\<close>, total 0, and as name the trimmed text of the field
  (or "Player n" for a blank one) cut to 20 code units, which is the field's text
  itself when that is already trimmed, not blank and not longer. The started flag is
  true and the hole index 0, whatever they were, and the new state is saved.
\<close>

theorem startRound_creates_players:
  "(inputs = [] \<longrightarrow> startGame inputs w = Inl (Toast (u ''Add at least one player'')))
 \<and> (inputs \<noteq> [] \<longrightarrow>
      (\<exists>w'. startGame inputs w = Inr w'
         \<and> length (players w') = length inputs
         \<and> (\<forall>i < length inputs.
              scores (players w' ! i) = replicate 18 Null
            \<and> total (players w' ! i) = 0
            \<and> name (players w' ! i) =
                take 20 (if trim (inputs ! i) \<noteq> [] then trim (inputs ! i)
                         else u ''Player '' @ showInt (int i + 1))
            \<and> (inputs ! i \<noteq> [] \<and> \<not> isWhiteSpace (hd (inputs ! i))
                 \<and> \<not> isWhiteSpace (last (inputs ! i)) \<and> length (inputs ! i) \<le> 20
                 \<longrightarrow> name (players w' ! i) = inputs ! i))
         \<and> gameStarted w' = Some (JBool True)
         \<and> currentHole w' = 0
         \<and> storage w' = Some (Text (snapshot w'))))"
proof (cases "inputs = []")
  case True
  then show ?thesis by (simp add: startGame_def)
next
  case False
  then show ?thesis
    by (simp add: startGame_players saveState_def renderHole_hole nth_enumerate_eq
        newPlayer_def HOLES_COUNT_def trim_id)
qed

theorem startRound_creates_players_witness:
  "startGame [] (roundAt 5 [cy]) = Inl (Toast (u ''Add at least one player''))
   \<and> (\<exists>w'. startGame [u ''Amy'', u '' ''] (roundAt 5 [cy]) = Inr w'
        \<and> length (players w') = 2
        \<and> name (players w' ! 0) = u ''Amy''
        \<and> name (players w' ! 1) = u ''Player 2''
        \<and> scores (players w' ! 1) = replicate 18 Null
        \<and> total (players w' ! 1) = 0
        \<and> gameStarted w' = Some (JBool True) \<and> currentHole w' = 0)"
proof -
  have t: "trim [65, 109, 121] = [65, 109, 121]" "trim [32] = []"
    by (simp_all add: trim_def isWhiteSpace_def)
  have s2: "showInt 2 = [50]"
    by (simp add: showInt_def digitsOf.simps)
  have two: "(\<forall>i<2. P i) = (P 0 \<and> P (Suc 0))" for P :: "nat \<Rightarrow> bool"
    by (auto simp: less_2_cases_iff)
  from startRound_creates_players [of "[]" "roundAt 5 [cy]"]
       startRound_creates_players [of "[u ''Amy'', u '' '']" "roundAt 5 [cy]"]
  show ?thesis
    by (auto simp: t s2 two isWhiteSpace_def)
qed

section \<open>Going back one hole\<close>

text \<open>
  C9. In a started round at hole \<open>h\<close> (0..17) with the score card dialog closed, the
  \<open>popstate\<close> handler, which the browser runs on a back step within the page, does
  this. For \<open>h > 0\<close> the hole index becomes \<open>h - 1\<close> and the player list is exactly
  the same list: every name, every score slot and every total is as before; the
  started flag stays and the state is saved. For \<open>h = 0\<close> it is \<open>goBackToSetup\<close>:
  the started flag becomes false, the setup screen is shown instead of the hole
  screen, the store entry is removed, and the players are kept; the back button of
  the page at hole 0 calls \<open>goBackToSetup\<close> itself, with the same result.
  \<open>previousHole\<close>, which is behind the back button above hole 0 and behind the
  left-arrow key, changes nothing by itself: above hole 0 it asks the browser for
  one back step, and at hole 0 it does nothing.
\<close>

theorem retreat_is_pure_navigation:
  assumes "started w" and "\<not> modalActive w" and "currentHole w = of_nat h" and "h \<le> 17"
  shows "(0 < h \<longrightarrow>
            players (popstate w) = players w
          \<and> currentHole (popstate w) = currentHole w - 1
          \<and> gameStarted (popstate w) = gameStarted w
          \<and> holeActive (popstate w) = holeActive w
          \<and> (isValidCourse (currentCourse w) \<longrightarrow> currentCourse (popstate w) = currentCourse w)
          \<and> storage (popstate w) = Some (Text (snapshot (popstate w)))
          \<and> previousHole w = (w, HistoryBack)
          \<and> backButton w = (w, HistoryBack))
       \<and> (h = 0 \<longrightarrow>
            popstate w = goBackToSetup w
          \<and> players (popstate w) = players w
          \<and> currentHole (popstate w) = 0
          \<and> gameStarted (popstate w) = Some (JBool False)
          \<and> \<not> holeActive (popstate w) \<and> \<not> setupHidden (popstate w)
          \<and> storage (popstate w) = None
          \<and> backButton w = (popstate w, NoRequest)
          \<and> previousHole w = (w, NoRequest))"
proof (cases "h = 0")
  case True
  with assms show ?thesis
    by (simp add: popstate_def goBackToSetup_def backButton_def previousHole_def)
next
  case False
  then have pos: "0 < h" by simp
  have nz: "currentHole w \<noteq> 0"
    using assms(3) pos by simp
  have lo: "0 \<le> currentHole w - 1"
    using assms(3) pos by simp
  have hi: "currentHole w - 1 < 18"
    using assms(3,4) by simp
  have step: "popstate w = saveState (renderHole (w\<lparr>currentHole := currentHole w - 1\<rparr>))"
    using assms(1,2) nz by (simp add: popstate_def)
  have prev: "previousHole w = (w, HistoryBack)"
    using assms(3) pos by (simp add: previousHole_def)
  have button: "backButton w = (w, HistoryBack)"
    using nz prev by (simp add: backButton_def)
  have hole: "currentHole (popstate w) = currentHole w - 1"
    using lo hi by (simp add: step saveState_def renderHole_hole)
  have rest: "players (popstate w) = players w \<and> gameStarted (popstate w) = gameStarted w
      \<and> holeActive (popstate w) = holeActive w
      \<and> (isValidCourse (currentCourse w) \<longrightarrow> currentCourse (popstate w) = currentCourse w)
      \<and> storage (popstate w) = Some (Text (snapshot (popstate w)))"
    by (simp add: step saveState_def renderHole_def Let_def)
  from pos prev button hole rest show ?thesis by simp
qed

theorem retreat_is_pure_navigation_witness:
  "players (popstate (roundAt 3 [amy, bo])) = [amy, bo]
   \<and> currentHole (popstate (roundAt 3 [amy, bo])) = 2
   \<and> storage (popstate (roundAt 3 [amy, bo]))
       = Some (Text (snapshot (popstate (roundAt 3 [amy, bo]))))
   \<and> previousHole (roundAt 3 [amy, bo]) = (roundAt 3 [amy, bo], HistoryBack)
   \<and> popstate (roundAt 0 [amy, bo]) = goBackToSetup (roundAt 0 [amy, bo])
   \<and> players (popstate (roundAt 0 [amy, bo])) = [amy, bo]
   \<and> gameStarted (popstate (roundAt 0 [amy, bo])) = Some (JBool False)
   \<and> storage (popstate (roundAt 0 [amy, bo])) = None
   \<and> backButton (roundAt 0 [amy, bo]) = (goBackToSetup (roundAt 0 [amy, bo]), NoRequest)
   \<and> previousHole (roundAt 0 [amy, bo]) = (roundAt 0 [amy, bo], NoRequest)"
proof -
  have a: "started (roundAt h ps)" "\<not> modalActive (roundAt h ps)"
    "currentHole (roundAt h ps) = of_nat h" "players (roundAt h ps) = ps" for h ps
    by (simp_all add: roundAt_def started_def)
  from retreat_is_pure_navigation [OF a(1) a(2) a(3), of 3 "[amy, bo]"]
       retreat_is_pure_navigation [OF a(1) a(2) a(3), of 0 "[amy, bo]"]
  show ?thesis
    by (auto simp: a)
qed

section \<open>Ranking\<close>

text \<open>
  C5. The ranking of the leaderboard, \<open>sortedByTotal\<close>, is a rearrangement of the
  player list in ascending order of total, and it is stable: for every total, the
  players with that total come in the ranking in the order they have in the player
  list. For players A (total 5), B (total 5) and C (total 3), in this order, the
  ranking is C, A, B.
\<close>

theorem rank_is_stable_sort:
  "sorted_wrt (\<lambda>a b. total a \<le> total b) (sortedByTotal ps)
   \<and> mset (sortedByTotal ps) = mset ps
   \<and> (\<forall>k. filter (\<lambda>p. total p = k) (sortedByTotal ps) = filter (\<lambda>p. total p = k) ps)
   \<and> sortedByTotal [a\<lparr>total := 5\<rparr>, b\<lparr>total := 5\<rparr>, c\<lparr>total := 3\<rparr>]
       = [c\<lparr>total := 3\<rparr>, a\<lparr>total := 5\<rparr>, b\<lparr>total := 5\<rparr>]"
  by (simp add: sorted_sortedByTotal stable_sortedByTotal)
    (simp add: sortedByTotal_def)

section \<open>Saving and loading again\<close>

text \<open>
  C6, as amended. Take a state with one of the two course identifiers, at least one
  player, a hole index in 0..17, and players whose slots are each \<^verbatim>\<open>null\<close> or a
  stroke count in 1..11, whose names are not empty and at most 20 code units long,
  and who have 18 slots each. Loading, on a freshly opened page, the entry that
  \<open>saveState\<close> wrote for it succeeds and gives the same course, hole index and
  started flag, and the same players with each total set to the sum of the stroke
  slots; so players whose totals already are those sums come back identical. The
  players of a round that \<open>startGame\<close> began and \<open>updateScore\<close> filled meet these
  conditions (\<open>startGame_valid\<close>, \<open>updateScore_valid\<close>).
\<close>

theorem load_after_save_round_trip:
  assumes "currentCourse w = JStr (u ''dragon'') \<or> currentCourse w = JStr (u ''knight'')"
    and "players w \<noteq> []"
    and "\<forall>p \<in> set (players w). \<forall>s \<in> set (scores p). s = Null \<or> (\<exists>n. s = Strokes n \<and> 1 \<le> n \<and> n \<le> 11)"
    and "currentHole w = of_nat h" and "h \<le> 17"
    and "\<forall>p \<in> set (players w). name p \<noteq> [] \<and> length (name p) \<le> 20 \<and> length (scores p) = 18"
  shows "\<exists>w'. loadState numText (freshPage (storage (saveState w))) = (True, w')
           \<and> currentCourse w' = currentCourse w
           \<and> currentHole w' = currentHole w
           \<and> gameStarted w' = gameStarted w
           \<and> players w' = map (\<lambda>p. p\<lparr>total := sum_list (strokesIn (scores p))\<rparr>) (players w)
           \<and> map name (players w') = map name (players w)
           \<and> map scores (players w') = map scores (players w)
           \<and> ((\<forall>p \<in> set (players w). total p = sum_list (strokesIn (scores p)))
                \<longrightarrow> players w' = players w)"
proof -
  have valid: "list_all validPlayer (players w)"
    using assms(3,6) by (simp add: list_all_iff validPlayer_def validSlot_iff)
  have c: "isValidCourse (currentCourse w)"
    using assms(1) by auto
  have h: "0 \<le> currentHole w" "currentHole w < 18"
    using assms(4,5) by simp_all
  have load: "loadState numText (freshPage (storage (saveState w))) =
     (True,
      (freshPage (storage (saveState w)))\<lparr>storage := Some (Text (snapshot w)),
         currentCourse := currentCourse w,
         gameStarted := gameStarted w,
         players := map (\<lambda>p. p\<lparr>total := totalOf (scores p)\<rparr>) (players w),
         setupHidden := True, holeActive := True,
         currentHole := currentHole w\<rparr>)"
    using loadState_saveState [OF c assms(2) valid h, of numText "freshPage (storage (saveState w))"]
    by (simp add: freshPage_def)
  have same: "(\<forall>p \<in> set (players w). total p = sum_list (strokesIn (scores p)))
      \<longrightarrow> map (\<lambda>p. p\<lparr>total := sum_list (strokesIn (scores p))\<rparr>) (players w) = players w"
    by (simp add: map_idI)
  show ?thesis
    using same by (simp add: load totalOf_sum_list comp_def)
qed

theorem load_after_save_round_trip_witness:
  "\<exists>w'. loadState (\<lambda>r. []) (freshPage (storage (saveState (roundAt 1 [dee, eli])))) = (True, w')
      \<and> currentCourse w' = JStr (u ''dragon'') \<and> currentHole w' = 1
      \<and> gameStarted w' = Some (JBool True) \<and> players w' = [dee, eli]"
proof -
  have t: "sum_list (strokesIn (scores dee)) = 4" "sum_list (strokesIn (scores eli)) = 4"
    by (simp_all add: dee_def eli_def)
  from load_after_save_round_trip [of "roundAt 1 [dee, eli]" 1 "\<lambda>r. []"]
  show ?thesis
    using t by (auto simp: roundAt_def dee_def eli_def)
qed

text \<open>
  C6 as stated, without the conditions on the names, fails: a player whose name is
  empty comes back as "Player", and a name of 21 code units comes back cut to 20,
  in states that meet every condition the claim lists.
\<close>

theorem load_after_save_changes_names:
  "isValidCourse (currentCourse (roundAt 0 [nameless]))
   \<and> length (players (roundAt 0 [nameless])) = 1
   \<and> list_all (\<lambda>p. list_all (\<lambda>s. s = Null) (scores p)) (players (roundAt 0 [nameless]))
   \<and> currentHole (roundAt 0 [nameless]) = 0
   \<and> map name (players (roundAt 0 [nameless])) = [[]]
   \<and> fst (loadState (\<lambda>r. []) (freshPage (storage (saveState (roundAt 0 [nameless]))))) = True
   \<and> map name (players (snd (loadState (\<lambda>r. [])
         (freshPage (storage (saveState (roundAt 0 [nameless])))))))
       = [u ''Player'']
   \<and> map name (players (roundAt 0 [longName])) = [u ''Bartholomew the Third'']
   \<and> map name (players (snd (loadState (\<lambda>r. [])
         (freshPage (storage (saveState (roundAt 0 [longName])))))))
       = [u ''Bartholomew the Thir'']"
  by (simp add: roundAt_def nameless_def longName_def freshPage_def saveState_def loadState_def
      member_snapshot member_playerJson loadPlayer_def loadName_def loadScores_def
      HOLES_COUNT_def renderHole_def Let_def loadSlot_def slotJson_def comp_def list_all_iff)


section \<open>Loading a damaged entry\<close>

text \<open>
  C7. \<open>loadState\<close> on three stored rounds that differ in the hole member and the
  first score. With hole 2.5, which is no integer, the round is accepted and the hole
  index becomes 2.5: the check on the hole asks for a number from 0 to below 18, not
  for an integer. With hole 25 the entry is discarded and removed. With hole 4 and a
  first score of 15 the round is kept and that one score becomes \<^verbatim>\<open>null\<close>; the
  total is the sum of the remaining scores, not the stored \<^verbatim>\<open>total\<close> member.
\<close>

theorem loadState_accepts_fractional_hole:
  "loadState numText (freshPage (Some (Text (storedRound (JNum (5 / 2)) JNull)))) =
     (True,
      (freshPage (Some (Text (storedRound (JNum (5 / 2)) JNull))))
        \<lparr>currentCourse := JStr (u ''dragon''), gameStarted := Some (JBool True),
         players := [\<lparr>name = u ''Amy'', scores = Null # Strokes 3 # replicate 16 Null,
                      total = 3\<rparr>],
         setupHidden := True, holeActive := True, currentHole := 5 / 2\<rparr>)
   \<and> \<not> isInteger (5 / 2)
   \<and> loadState numText (freshPage (Some (Text (storedRound (JNum 25) JNull)))) =
       (False, freshPage None)
   \<and> loadState numText (freshPage (Some (Text (storedRound (JNum 4) (JNum 15))))) =
     (True,
      (freshPage (Some (Text (storedRound (JNum 4) (JNum 15)))))
        \<lparr>currentCourse := JStr (u ''dragon''), gameStarted := Some (JBool True),
         players := [\<lparr>name = u ''Amy'', scores = Null # Strokes 3 # replicate 16 Null,
                      total = 3\<rparr>],
         setupHidden := True, holeActive := True, currentHole := 4\<rparr>)"
  by (simp add: loadState_def freshPage_def storedRound_def member_def discard_def
      loadPlayer_def loadName_def loadScores_def loadSlot_def isValidScore_def
      HOLES_COUNT_def renderHole_def Let_def totalOf_sum_list isInteger_def)

section \<open>The course and the scores\<close>

text \<open>
  C10. Both courses have the same par list, 2, 3, 2, 3, ..., 2, 4. So for two states
  that differ only in which of the two course identifiers is selected, the
  classification of any stroke count on any hole, the par differential of any player,
  the ranking and the whole leaderboard (places, differences to par, achievements)
  are the same.
\<close>

theorem course_choice_does_not_affect_scoring:
  assumes "c = JStr (u ''dragon'') \<or> c = JStr (u ''knight'')"
    and "c' = JStr (u ''dragon'') \<or> c' = JStr (u ''knight'')"
  shows "parsOf c = [2, 3, 2, 3, 2, 3, 2, 3, 2, 3, 2, 3, 2, 3, 2, 3, 2, 4]
       \<and> parsOf c' = parsOf c
       \<and> (\<forall>strokes h. getScoreDescription strokes (parsOf c' ! h)
                      = getScoreDescription strokes (parsOf c ! h))
       \<and> getParDifferential (w\<lparr>currentCourse := c'\<rparr>) po
           = getParDifferential (w\<lparr>currentCourse := c\<rparr>) po
       \<and> buildLeaderboard (w\<lparr>currentCourse := c'\<rparr>) = buildLeaderboard (w\<lparr>currentCourse := c\<rparr>)
       \<and> (\<forall>e. achievementsOf (parsOf c') e = achievementsOf (parsOf c) e)
       \<and> sortedByTotal (players (w\<lparr>currentCourse := c'\<rparr>))
           = sortedByTotal (players (w\<lparr>currentCourse := c\<rparr>))"
proof -
  have v: "isValidCourse c" "isValidCourse c'"
    using assms by auto
  have p: "parsOf c' = parsOf c"
    using v by (simp add: parsOf_valid)
  show ?thesis
    using v by (simp add: p parsOf_valid [OF v(1)] getParDifferential_def buildLeaderboard_def
        split: option.splits)
qed

theorem course_choice_does_not_affect_scoring_witness:
  "parsOf (JStr (u ''knight'')) = parsOf (JStr (u ''dragon''))
   \<and> getParDifferential (roundAt 1 [dee]\<lparr>currentCourse := JStr (u ''knight'')\<rparr>) (Some dee)
       = getParDifferential (roundAt 1 [dee]\<lparr>currentCourse := JStr (u ''dragon'')\<rparr>) (Some dee)
   \<and> buildLeaderboard (roundAt 17 [cy, dee]\<lparr>currentCourse := JStr (u ''knight'')\<rparr>)
       = buildLeaderboard (roundAt 17 [cy, dee]\<lparr>currentCourse := JStr (u ''dragon'')\<rparr>)"
  using course_choice_does_not_affect_scoring
          [of "JStr (u ''dragon'')" "JStr (u ''knight'')" "roundAt 1 [dee]" "Some dee"]
        course_choice_does_not_affect_scoring
          [of "JStr (u ''dragon'')" "JStr (u ''knight'')" "roundAt 17 [cy, dee]" "Some dee"]
  by simp

end
